theory Spec2Isabelle
  imports Main
begin

section \<open>Python text operations used by the workflow\<close>

text \<open>
  Text is a list of characters. The operations below are the ASCII part of Python's
  \<^verbatim>\<open>str.strip()\<close>, \<^verbatim>\<open>str.upper()\<close>, the operator \<^verbatim>\<open>in\<close> on two strings, and
  \<^verbatim>\<open>str(int)\<close>: characters above 127 are neither white space nor letters here.
\<close>

definition py_isspace :: "char \<Rightarrow> bool" where
  "py_isspace c =
     (let n = (of_char c :: nat) in (9 \<le> n \<and> n \<le> 13) \<or> (28 \<le> n \<and> n \<le> 32))"

definition py_strip :: "string \<Rightarrow> string" where
  "py_strip s = rev (dropWhile py_isspace (rev (dropWhile py_isspace s)))"

definition upper_char :: "char \<Rightarrow> char" where
  "upper_char c =
     (let n = (of_char c :: nat) in if 97 \<le> n \<and> n \<le> 122 then char_of (n - 32) else c)"

definition py_upper :: "string \<Rightarrow> string" where
  "py_upper s = map upper_char s"

fun starts_with :: "string \<Rightarrow> string \<Rightarrow> bool" where
  "starts_with [] s = True"
| "starts_with (p # ps) [] = False"
| "starts_with (p # ps) (c # cs) = (p = c \<and> starts_with ps cs)"

text \<open>\<^verbatim>\<open>sub in s\<close>: some position of \<open>s\<close> starts a copy of \<open>sub\<close>.\<close>

fun py_in :: "string \<Rightarrow> string \<Rightarrow> bool" where
  "py_in sub [] = (sub = [])"
| "py_in sub (c # cs) = (starts_with sub (c # cs) \<or> py_in sub cs)"

fun digit_char :: "nat \<Rightarrow> char" where
  "digit_char d = char_of (48 + d)"

fun str_nat :: "nat \<Rightarrow> string" where
  "str_nat n = (if n < 10 then [digit_char n] else str_nat (n div 10) @ [digit_char (n mod 10)])"

definition str_int :: "int \<Rightarrow> string" where
  "str_int i = (if i < 0 then CHR 0x2D # str_nat (nat (- i)) else str_nat (nat i))"

text \<open>
  A metadata value is a text or an integer. \<open>truthy\<close> is Python's truth test of a value,
  \<open>format_value\<close> what an f-string puts for \<^verbatim>\<open>{v}\<close>.
\<close>

datatype py_value = PyStr string | PyInt int

fun truthy :: "py_value \<Rightarrow> bool" where
  "truthy (PyStr s) = (s \<noteq> [])"
| "truthy (PyInt i) = (i \<noteq> 0)"

fun format_value :: "py_value \<Rightarrow> string" where
  "format_value (PyStr s) = s"
| "format_value (PyInt i) = str_int i"

section \<open>Request and response models of the HTTP layer (backend/main.py)\<close>

record ChatRequest =
  message :: string

record Citation =
  source :: string
  page_content :: string

record ChatResponse =
  answer :: string
  citations :: "Citation list"

datatype HTTPException = HTTPException nat string

section \<open>Workflow state and collaborators\<close>

record Document =
  page_content :: string
  metadata :: "string \<rightharpoonup> py_value"

text \<open>
  Modelled from the spec: the declaration of \<^verbatim>\<open>RAGState\<close> (module
  \<^verbatim>\<open>src.state.agent_state\<close>) is not among the source files. The spec gives its three
  fields, a required \<open>question\<close>, an \<open>answer\<close> that is empty until a stage sets it and a
  sequence \<open>retrieved_docs\<close> that is empty until the retrieval stage fills it; the two
  constants below are the values a constructor call takes for a field it leaves out.
\<close>

record RAGState =
  question :: string
  retrieved_docs :: "Document list"
  answer :: string

definition default_retrieved_docs :: "Document list" where
  "default_retrieved_docs = []"

definition default_answer :: string where
  "default_answer = []"

text \<open>
  A message object; \<open>NoContent\<close> stands for an object without the attribute
  \<^verbatim>\<open>content\<close>.
\<close>

datatype BaseMessage =
    SystemMessage string
  | HumanMessage string
  | AIMessage string
  | NoContent

text \<open>\<^verbatim>\<open>getattr(msg, "content", None)\<close>\<close>

fun getattr_content :: "BaseMessage \<Rightarrow> string option" where
  "getattr_content (SystemMessage c) = Some c"
| "getattr_content (HumanMessage c) = Some c"
| "getattr_content (AIMessage c) = Some c"
| "getattr_content NoContent = None"

datatype error = Raised string

text \<open>
  The three collaborators of \<^verbatim>\<open>RAGNodes\<close>: the retriever, the language model (the value
  is the reply's \<^verbatim>\<open>content\<close>) and the agent that \<^verbatim>\<open>_build_agent\<close> creates on first use.
  Each call either raises or returns. The agent's result is a dictionary; only its key
  \<^verbatim>\<open>messages\<close> is read.
\<close>

record RAGNodes =
  retriever :: "string \<Rightarrow> error + Document list"
  llm :: "BaseMessage list \<Rightarrow> error + string"
  agent :: "BaseMessage list \<Rightarrow> error + (string \<rightharpoonup> BaseMessage list)"

datatype node = Guardrail | Retriever | Responder | END

text \<open>
  What a run does to the outside world, in order: the stage functions the graph executes
  and the calls they make to the collaborators.
\<close>

datatype event =
    Stage node
  | LLMInvoke "BaseMessage list"
  | RetrieverInvoke string
  | AgentInvoke "BaseMessage list"

text \<open>The stage functions executed, in order.\<close>

fun stages_of :: "event list \<Rightarrow> node list" where
  "stages_of [] = []"
| "stages_of (Stage n # es) = n # stages_of es"
| "stages_of (e # es) = stages_of es"

section \<open>The stages (class RAGNodes)\<close>

text \<open>
  Each stage takes the collaborators, the state and the events so far, and returns the
  new state (or the error a collaborator raised) with the events extended. The stages'
  debug output is left out.
\<close>

definition system_prompt :: string where
  "system_prompt =
     ''You are a strict filter for a University Department chatbot. '' @
     ''Your ONLY job is to classify if the question is about the University, '' @
     ''Computer Science Department, Admissions, Faculty, Courses, or the Prospectus.'' @
     [CHR 0x0A] @
     ''Rules:'' @ [CHR 0x0A] @
     ''1. Greetings (Hi, Hello) -> Reply 'NO'' @ [CHR 0x27, CHR 0x0A] @
     ''2. General Knowledge (What is Python?, Who is Obama?) -> Reply 'NO'' @
     [CHR 0x27, CHR 0x0A] @
     ''3. Department Questions (Who is the HOD?, Fee structure?) -> Reply 'YES'' @
     [CHR 0x27, CHR 0x0A, CHR 0x0A] @
     ''Reply strictly with 'YES' or 'NO'.''"

definition refusal :: string where
  "refusal = ''I only answer department information.''"

definition guardrail_messages :: "RAGState \<Rightarrow> BaseMessage list" where
  "guardrail_messages state = [SystemMessage system_prompt, HumanMessage (question state)]"

definition guardrail ::
  "RAGNodes \<Rightarrow> RAGState \<Rightarrow> event list \<Rightarrow> (error + RAGState) \<times> event list" where
  "guardrail self state tr =
     (let messages = guardrail_messages state;
          tr' = tr @ [LLMInvoke messages]
      in case llm self messages of
           Inl e \<Rightarrow> (Inl e, tr')
         | Inr content \<Rightarrow>
             (let decision = py_upper (py_strip content)
              in if py_in ''NO'' decision
                 then (Inr \<lparr>question = question state,
                            retrieved_docs = default_retrieved_docs,
                            answer = refusal\<rparr>, tr')
                 else (Inr \<lparr>question = question state,
                            retrieved_docs = default_retrieved_docs,
                            answer = []\<rparr>, tr')))"

definition retrieve_docs ::
  "RAGNodes \<Rightarrow> RAGState \<Rightarrow> event list \<Rightarrow> (error + RAGState) \<times> event list" where
  "retrieve_docs self state tr =
     (let tr' = tr @ [RetrieverInvoke (question state)]
      in case retriever self (question state) of
           Inl e \<Rightarrow> (Inl e, tr')
         | Inr docs \<Rightarrow>
             (Inr \<lparr>question = question state,
                   retrieved_docs = docs,
                   answer = default_answer\<rparr>, tr'))"

definition could_not_generate :: string where
  "could_not_generate = ''Could not generate answer.''"

text \<open>\<^verbatim>\<open>a or d\<close> for an optional text \<open>a\<close>: \<open>None\<close> and the empty text are false.\<close>

definition py_or :: "string option \<Rightarrow> string \<Rightarrow> string" where
  "py_or a d = (case a of None \<Rightarrow> d | Some s \<Rightarrow> if s = [] then d else s)"

text \<open>
  The agent is the collaborator \<open>agent self\<close>; an error of its construction on first
  use shows as an error of the call.
\<close>

definition generate_answer ::
  "RAGNodes \<Rightarrow> RAGState \<Rightarrow> event list \<Rightarrow> (error + RAGState) \<times> event list" where
  "generate_answer self state tr =
     (let input = [HumanMessage (question state)];
          tr' = tr @ [AgentInvoke input]
      in case agent self input of
           Inl e \<Rightarrow> (Inl e, tr')
         | Inr result \<Rightarrow>
             (let messages = (case result ''messages'' of None \<Rightarrow> [] | Some ms \<Rightarrow> ms);
                  answer = (if messages \<noteq> [] then getattr_content (last messages) else None)
              in (Inr \<lparr>question = question state,
                        retrieved_docs = retrieved_docs state,
                        answer = py_or answer could_not_generate\<rparr>, tr')))"

section \<open>The workflow graph (class GraphBuilder)\<close>

definition check_guardrail :: "RAGState \<Rightarrow> string" where
  "check_guardrail state =
     (if answer state \<noteq> [] \<and> py_in ''I only answer department information'' (answer state)
      then ''end'' else ''continue'')"

text \<open>
  The graph that \<^verbatim>\<open>build\<close> assembles: the entry point, the mapping of the conditional
  edge that leaves \<open>Guardrail\<close>, and the two fixed edges.
\<close>

definition entry_point :: node where
  "entry_point = Guardrail"

definition conditional_edges :: "(string \<times> node) list" where
  "conditional_edges = [(''end'', END), (''continue'', Retriever)]"

definition edges :: "(node \<times> node) list" where
  "edges = [(Retriever, Responder), (Responder, END)]"

definition graph_edges :: "(node \<times> node) list" where
  "graph_edges = map (\<lambda>(key, target). (Guardrail, target)) conditional_edges @ edges"

fun node_function ::
  "RAGNodes \<Rightarrow> node \<Rightarrow> RAGState \<Rightarrow> event list \<Rightarrow> (error + RAGState) \<times> event list" where
  "node_function self Guardrail = guardrail self"
| "node_function self Retriever = retrieve_docs self"
| "node_function self Responder = generate_answer self"
| "node_function self END = (\<lambda>state tr. (Inr state, tr))"

definition next_node :: "node \<Rightarrow> RAGState \<Rightarrow> node option" where
  "next_node n state =
     (if n = Guardrail then map_of conditional_edges (check_guardrail state)
      else map_of edges n)"

definition rank :: "node \<Rightarrow> nat" where
  "rank n = (case n of Guardrail \<Rightarrow> 3 | Retriever \<Rightarrow> 2 | Responder \<Rightarrow> 1 | END \<Rightarrow> 0)"

text \<open>
  Executing the compiled graph from a node: run the node's function, then follow the edge
  its result selects, until \<open>END\<close>. The state after a node is the state the node
  returned. An error of a node function ends the execution. The graph is the same
  whenever it is built, so building it on first use is not part of the state.
\<close>

function invoke_from ::
  "RAGNodes \<Rightarrow> node \<Rightarrow> RAGState \<Rightarrow> event list \<Rightarrow> (error + RAGState) \<times> event list" where
  "invoke_from self n state tr =
     (if n = END then (Inr state, tr)
      else case node_function self n state (tr @ [Stage n]) of
             (Inl e, tr') \<Rightarrow> (Inl e, tr')
           | (Inr state', tr') \<Rightarrow>
               (case next_node n state' of
                  None \<Rightarrow> (Inl (Raised ''KeyError''), tr')
                | Some n' \<Rightarrow> invoke_from self n' state' tr'))"
  by pat_completeness auto
termination
  by (relation "measure (\<lambda>(self, n, state, tr). rank n)")
    (auto simp: next_node_def rank_def conditional_edges_def edges_def check_guardrail_def
      split: if_splits node.splits)

declare invoke_from.simps [simp del]

text \<open>
  The dictionary that \<^verbatim>\<open>graph.invoke\<close> returns: one optional entry for each field of the
  state.
\<close>

record result =
  question_entry :: "string option"
  retrieved_docs_entry :: "Document list option"
  answer_entry :: "string option"

definition as_result :: "RAGState \<Rightarrow> result" where
  "as_result state =
     \<lparr>question_entry = Some (question state),
      retrieved_docs_entry = Some (retrieved_docs state),
      answer_entry = Some (answer state)\<rparr>"

definition run :: "RAGNodes \<Rightarrow> string \<Rightarrow> event list \<Rightarrow> (error + result) \<times> event list" where
  "run self q tr =
     (let initial_state =
            \<lparr>question = q, retrieved_docs = default_retrieved_docs, answer = default_answer\<rparr>
      in case invoke_from self entry_point initial_state tr of
           (Inl e, tr') \<Rightarrow> (Inl e, tr')
         | (Inr state, tr') \<Rightarrow> (Inr (as_result state), tr'))"

section \<open>The chat endpoint (backend/main.py)\<close>

text \<open>
  The body of the loop over \<^verbatim>\<open>result['retrieved_docs']\<close>. The response model declares
  \<^verbatim>\<open>source: str\<close>, so a label that is not a text is a validation error; the text
  of an error stands for what \<^verbatim>\<open>str(e)\<close> gives.
\<close>

definition citation_of :: "Document \<Rightarrow> error + Citation" where
  "citation_of doc =
     (let meta = metadata doc;
          source_name = (case meta ''source'' of None \<Rightarrow> PyStr ''Unknown Source'' | Some v \<Rightarrow> v);
          page_num = (case meta ''page'' of None \<Rightarrow> PyStr [] | Some v \<Rightarrow> v);
          src_label =
            (if truthy page_num
             then PyStr (format_value source_name @ '' (Page '' @ format_value page_num @ '')'')
             else source_name)
      in case src_label of
           PyStr label \<Rightarrow>
             Inr \<lparr>source = label,
                  Citation.page_content = take 200 (Document.page_content doc) @ ''...''\<rparr>
         | PyInt i \<Rightarrow> Inl (Raised ''ValidationError''))"

fun citations_loop :: "Document list \<Rightarrow> Citation list \<Rightarrow> error + Citation list" where
  "citations_loop [] cits = Inr cits"
| "citations_loop (doc # docs) cits =
     (case citation_of doc of
        Inl e \<Rightarrow> Inl e
      | Inr c \<Rightarrow> citations_loop docs (cits @ [c]))"

text \<open>
  \<open>rag_system\<close> is the global handle: \<open>None\<close> before start-up has finished, afterwards an
  object whose method \<^verbatim>\<open>run\<close> is the function given.
\<close>

definition chat_endpoint ::
  "(string \<Rightarrow> event list \<Rightarrow> (error + result) \<times> event list) option \<Rightarrow> ChatRequest \<Rightarrow>
     event list \<Rightarrow> (HTTPException + ChatResponse) \<times> event list" where
  "chat_endpoint rag_system request tr =
     (case rag_system of
        None \<Rightarrow> (Inl (HTTPException 503 ''System is still initializing''), tr)
      | Some run_method \<Rightarrow>
          (case run_method (message request) tr of
             (Inl (Raised e), tr') \<Rightarrow> (Inl (HTTPException 500 e), tr')
           | (Inr res, tr') \<Rightarrow>
               (let answer_text = (case answer_entry res of None \<Rightarrow> [] | Some a \<Rightarrow> a);
                    built =
                      (case retrieved_docs_entry res of
                         None \<Rightarrow> Inr []
                       | Some docs \<Rightarrow> if docs \<noteq> [] then citations_loop docs [] else Inr [])
                in case built of
                     Inl (Raised e) \<Rightarrow> (Inl (HTTPException 500 e), tr')
                   | Inr cits \<Rightarrow>
                       (Inr \<lparr>ChatResponse.answer = answer_text, citations = cits\<rparr>, tr'))))"

section \<open>Example collaborators\<close>

definition first_page :: Document where
  "first_page =
     \<lparr>Document.page_content = ''Department of Computer Science'',
      metadata = [''source'' \<mapsto> PyStr ''prospectus.pdf'', ''page'' \<mapsto> PyInt 0]\<rparr>"

definition second_page :: Document where
  "second_page =
     \<lparr>Document.page_content = ''Admissions'',
      metadata = [''source'' \<mapsto> PyStr ''prospectus.pdf'', ''page'' \<mapsto> PyInt 1]\<rparr>"

text \<open>A model that refuses (its reply is \<^verbatim>\<open>" no. "\<close>) and one that accepts.\<close>

definition refusing_nodes :: RAGNodes where
  "refusing_nodes =
     \<lparr>retriever = (\<lambda>q. Inr [first_page, second_page]),
      llm = (\<lambda>ms. Inr '' no. ''),
      agent = (\<lambda>ms. Inr [''messages'' \<mapsto> ms @ [AIMessage ''Dr. Khan is the chairman.'']])\<rparr>"

definition accepting_nodes :: RAGNodes where
  "accepting_nodes =
     \<lparr>retriever = (\<lambda>q. Inr [first_page, second_page]),
      llm = (\<lambda>ms. Inr ''YES''),
      agent = (\<lambda>ms. Inr [''messages'' \<mapsto> ms @ [AIMessage ''Dr. Khan is the chairman.'']])\<rparr>"

text \<open>An accepting model whose agent ends with the refusal sentence itself.\<close>

definition echoing_nodes :: RAGNodes where
  "echoing_nodes =
     \<lparr>retriever = (\<lambda>q. Inr [first_page]),
      llm = (\<lambda>ms. Inr ''YES''),
      agent = (\<lambda>ms. Inr [''messages'' \<mapsto>
                 ms @ [AIMessage ''I only answer department information.'']])\<rparr>"

text \<open>An accepting model whose agent returns no messages.\<close>

definition silent_nodes :: RAGNodes where
  "silent_nodes =
     \<lparr>retriever = (\<lambda>q. Inr [first_page]),
      llm = (\<lambda>ms. Inr ''YES''),
      agent = (\<lambda>ms. Inr Map.empty)\<rparr>"

definition hi_state :: RAGState where
  "hi_state = \<lparr>question = ''Hi'', retrieved_docs = [], answer = []\<rparr>"

text \<open>A \<^verbatim>\<open>run\<close> method whose result has the question as its only entry.\<close>

definition bare_run :: "string \<Rightarrow> event list \<Rightarrow> (error + result) \<times> event list" where
  "bare_run q tr =
     (Inr \<lparr>question_entry = Some q, retrieved_docs_entry = None, answer_entry = None\<rparr>, tr)"

section \<open>Basic facts about the text search, the guardrail and the edges\<close>

lemma starts_with_iff: "starts_with p s \<longleftrightarrow> (\<exists>q. s = p @ q)"
  by (induction p s rule: starts_with.induct) auto

lemma py_in_iff: "py_in sub s \<longleftrightarrow> (\<exists>p q. s = p @ sub @ q)"
proof (induction s)
  case Nil
  show ?case by auto
next
  case (Cons c cs)
  have "(\<exists>p q. c # cs = p @ sub @ q) \<longleftrightarrow>
        (\<exists>q. c # cs = sub @ q) \<or> (\<exists>p q. cs = p @ sub @ q)"
  proof
    assume "\<exists>p q. c # cs = p @ sub @ q"
    then obtain p q where pq: "c # cs = p @ sub @ q" by blast
    show "(\<exists>q. c # cs = sub @ q) \<or> (\<exists>p q. cs = p @ sub @ q)"
    proof (cases p)
      case Nil
      with pq show ?thesis by auto
    next
      case (Cons a p')
      with pq have "cs = p' @ sub @ q" by simp
      then show ?thesis by blast
    qed
  next
    assume "(\<exists>q. c # cs = sub @ q) \<or> (\<exists>p q. cs = p @ sub @ q)"
    then show "\<exists>p q. c # cs = p @ sub @ q"
    proof
      assume "\<exists>q. c # cs = sub @ q"
      then obtain q where "c # cs = [] @ sub @ q" by auto
      then show ?thesis by blast
    next
      assume "\<exists>p q. cs = p @ sub @ q"
      then obtain p q where "c # cs = (c # p) @ sub @ q" by auto
      then show ?thesis by blast
    qed
  qed
  with Cons show ?case by (simp add: starts_with_iff)
qed

lemma marker_in_refusal: "py_in ''I only answer department information'' refusal"
  by (simp add: refusal_def)

lemma check_guardrail_iff:
  "check_guardrail state = ''end'' \<longleftrightarrow>
     py_in ''I only answer department information'' (answer state)"
  by (cases "answer state") (simp_all add: check_guardrail_def)

lemma check_guardrail_cases:
  "check_guardrail state = ''end'' \<or> check_guardrail state = ''continue''"
  by (simp add: check_guardrail_def)

lemma next_node_Guardrail:
  "next_node Guardrail state =
     Some (if py_in ''I only answer department information'' (answer state)
           then END else Retriever)"
  using check_guardrail_iff [of state] check_guardrail_cases [of state]
  by (auto simp: next_node_def conditional_edges_def)

lemma next_node_Retriever: "next_node Retriever state = Some Responder"
  by (simp add: next_node_def edges_def)

lemma next_node_Responder: "next_node Responder state = Some END"
  by (simp add: next_node_def edges_def)

lemma next_node_END: "next_node END state = None"
  by (simp add: next_node_def edges_def)

lemma guardrail_returns:
  assumes "llm self (guardrail_messages state) = Inr r"
  shows "guardrail self state tr =
           (Inr \<lparr>question = question state, retrieved_docs = [],
                 answer = (if py_in ''NO'' (py_upper (py_strip r)) then refusal else [])\<rparr>,
            tr @ [LLMInvoke (guardrail_messages state)])"
  using assms by (simp add: guardrail_def Let_def default_retrieved_docs_def)

lemma guardrail_raises:
  assumes "llm self (guardrail_messages state) = Inl e"
  shows "guardrail self state tr = (Inl e, tr @ [LLMInvoke (guardrail_messages state)])"
  using assms by (simp add: guardrail_def Let_def)

lemma guardrail_answer:
  assumes "guardrail self state tr = (Inr state', tr')"
  shows "answer state' = refusal \<or> answer state' = []"
proof (cases "llm self (guardrail_messages state)")
  case (Inl e)
  with assms show ?thesis by (simp add: guardrail_raises)
next
  case (Inr r)
  with assms show ?thesis by (auto simp: guardrail_returns)
qed

section \<open>Executing the graph\<close>

lemma stages_of_append: "stages_of (xs @ ys) = stages_of xs @ stages_of ys"
  by (induction xs rule: stages_of.induct) simp_all

lemma generate_answer_trace:
  "snd (generate_answer self state tr) = tr @ [AgentInvoke [HumanMessage (question state)]]"
  by (simp add: generate_answer_def Let_def split: sum.splits)

lemma invoke_from_END: "invoke_from self END state tr = (Inr state, tr)"
  by (simp add: invoke_from.simps)

lemma invoke_from_Responder:
  "invoke_from self Responder state tr = generate_answer self state (tr @ [Stage Responder])"
proof (cases "generate_answer self state (tr @ [Stage Responder])")
  case (Pair res tr')
  then show ?thesis
    by (cases res)
      (simp_all add: invoke_from.simps [of self Responder] next_node_Responder invoke_from_END)
qed

lemma invoke_from_Retriever:
  "invoke_from self Retriever state tr =
     (case retriever self (question state) of
        Inl e \<Rightarrow> (Inl e, tr @ [Stage Retriever, RetrieverInvoke (question state)])
      | Inr docs \<Rightarrow>
          generate_answer self
            \<lparr>question = question state, retrieved_docs = docs, answer = []\<rparr>
            (tr @ [Stage Retriever, RetrieverInvoke (question state), Stage Responder]))"
  by (simp add: invoke_from.simps [of self Retriever] retrieve_docs_def Let_def
      next_node_Retriever invoke_from_Responder default_answer_def split: sum.splits)

lemma invoke_from_Guardrail:
  "invoke_from self Guardrail state tr =
     (case llm self (guardrail_messages state) of
        Inl e \<Rightarrow> (Inl e, tr @ [Stage Guardrail, LLMInvoke (guardrail_messages state)])
      | Inr r \<Rightarrow>
          if py_in ''NO'' (py_upper (py_strip r))
          then (Inr \<lparr>question = question state, retrieved_docs = [], answer = refusal\<rparr>,
                tr @ [Stage Guardrail, LLMInvoke (guardrail_messages state)])
          else invoke_from self Retriever
                 \<lparr>question = question state, retrieved_docs = [], answer = []\<rparr>
                 (tr @ [Stage Guardrail, LLMInvoke (guardrail_messages state)]))"
  using marker_in_refusal
  by (simp add: invoke_from.simps [of self Guardrail] guardrail_def Let_def
      next_node_Guardrail invoke_from_END default_retrieved_docs_def split: sum.splits)

lemma run_cases:
  "run self q tr =
     (case llm self [SystemMessage system_prompt, HumanMessage q] of
        Inl e \<Rightarrow> (Inl e, tr @ [Stage Guardrail, LLMInvoke [SystemMessage system_prompt, HumanMessage q]])
      | Inr r \<Rightarrow>
          if py_in ''NO'' (py_upper (py_strip r))
          then (Inr \<lparr>question_entry = Some q, retrieved_docs_entry = Some [],
                     answer_entry = Some refusal\<rparr>,
                tr @ [Stage Guardrail, LLMInvoke [SystemMessage system_prompt, HumanMessage q]])
          else
            (case retriever self q of
               Inl e \<Rightarrow>
                 (Inl e, tr @ [Stage Guardrail,
                               LLMInvoke [SystemMessage system_prompt, HumanMessage q],
                               Stage Retriever, RetrieverInvoke q])
             | Inr docs \<Rightarrow>
                 (case generate_answer self
                         \<lparr>question = q, retrieved_docs = docs, answer = []\<rparr>
                         (tr @ [Stage Guardrail,
                                LLMInvoke [SystemMessage system_prompt, HumanMessage q],
                                Stage Retriever, RetrieverInvoke q, Stage Responder]) of
                    (Inl e, tr') \<Rightarrow> (Inl e, tr')
                  | (Inr state, tr') \<Rightarrow> (Inr (as_result state), tr'))))"
  by (simp add: run_def Let_def entry_point_def invoke_from_Guardrail invoke_from_Retriever
      guardrail_messages_def default_retrieved_docs_def default_answer_def as_result_def
      split: sum.splits)

lemma generate_answer_returns:
  assumes "agent self [HumanMessage (question state)] = Inr result"
  shows "generate_answer self state tr =
           (Inr \<lparr>question = question state, retrieved_docs = retrieved_docs state,
                 answer =
                   py_or (case result ''messages'' of
                            None \<Rightarrow> None
                          | Some ms \<Rightarrow> if ms \<noteq> [] then getattr_content (last ms) else None)
                     could_not_generate\<rparr>,
            tr @ [AgentInvoke [HumanMessage (question state)]])"
  using assms by (simp add: generate_answer_def Let_def split: option.splits)

lemma generate_answer_raises:
  assumes "agent self [HumanMessage (question state)] = Inl e"
  shows "generate_answer self state tr =
           (Inl e, tr @ [AgentInvoke [HumanMessage (question state)]])"
  using assms by (simp add: generate_answer_def Let_def)

lemma generate_answer_frame_aux:
  assumes "generate_answer self state tr = (Inr state', tr')"
  shows "question state' = question state \<and> retrieved_docs state' = retrieved_docs state"
  using assms by (auto simp: generate_answer_def Let_def split: sum.splits)

lemma py_or_refusal: "py_or a could_not_generate = refusal \<longleftrightarrow> a = Some refusal"
  by (cases a) (auto simp: py_or_def could_not_generate_def refusal_def)

lemma yes_normalised: "py_upper (py_strip ''YES'') = ''YES''"
  by code_simp

lemma no_normalised: "py_upper (py_strip '' no. '') = ''NO.''"
  by code_simp

lemma graph_edges_descend: "(a, b) \<in> set graph_edges \<Longrightarrow> rank b < rank a"
  by (auto simp: graph_edges_def conditional_edges_def edges_def rank_def)

lemma acyclic_graph_edges: "acyclic (set graph_edges)"
proof -
  have "set graph_edges \<subseteq> (measure rank)\<inverse>"
    by (auto dest: graph_edges_descend)
  moreover have "acyclic ((measure rank)\<inverse>)"
    by (simp add: acyclic_converse wf_acyclic)
  ultimately show ?thesis by (rule acyclic_subset [rotated])
qed

lemma next_node_in_graph_edges:
  "next_node n state = Some n' \<Longrightarrow> (n, n') \<in> set graph_edges"
  by (cases n)
    (auto simp: next_node_Guardrail next_node_Retriever next_node_Responder next_node_END
      graph_edges_def conditional_edges_def edges_def split: if_splits)

lemma run_stages:
  "stages_of (snd (run self q tr)) = stages_of tr @ [Guardrail] \<or>
   stages_of (snd (run self q tr)) = stages_of tr @ [Guardrail, Retriever] \<or>
   stages_of (snd (run self q tr)) = stages_of tr @ [Guardrail, Retriever, Responder]"
proof (cases "llm self [SystemMessage system_prompt, HumanMessage q]")
  case (Inl e)
  then show ?thesis by (simp add: run_cases stages_of_append)
next
  case r: (Inr r)
  show ?thesis
  proof (cases "py_in ''NO'' (py_upper (py_strip r))")
    case True
    with r show ?thesis by (simp add: run_cases stages_of_append)
  next
    case no: False
    show ?thesis
    proof (cases "retriever self q")
      case (Inl e)
      with r no show ?thesis by (simp add: run_cases stages_of_append)
    next
      case d: (Inr docs)
      let ?tr = "tr @ [Stage Guardrail,
                       LLMInvoke [SystemMessage system_prompt, HumanMessage q],
                       Stage Retriever, RetrieverInvoke q, Stage Responder]"
      let ?s = "\<lparr>question = q, retrieved_docs = docs, answer = []\<rparr>"
      have "snd (run self q tr) = snd (generate_answer self ?s ?tr)"
        using r no d by (simp add: run_cases split: prod.splits sum.splits)
      then show ?thesis
        by (simp add: generate_answer_trace stages_of_append)
    qed
  qed
qed

section \<open>Citations\<close>

lemma citation_of_paged:
  assumes "metadata doc ''source'' = Some (PyStr name)"
    and "metadata doc ''page'' = Some v" and "truthy v"
  shows "citation_of doc =
           Inr \<lparr>source = name @ '' (Page '' @ format_value v @ '')'',
                Citation.page_content = take 200 (Document.page_content doc) @ ''...''\<rparr>"
  using assms by (simp add: citation_of_def Let_def)

lemma citation_of_unpaged:
  assumes "metadata doc ''source'' = Some (PyStr name)"
    and "metadata doc ''page'' = None \<or> (\<exists>v. metadata doc ''page'' = Some v \<and> \<not> truthy v)"
  shows "citation_of doc =
           Inr \<lparr>source = name,
                Citation.page_content = take 200 (Document.page_content doc) @ ''...''\<rparr>"
  using assms by (auto simp: citation_of_def Let_def)

lemma str_int_1: "str_int 1 = ''1''"
  by code_simp

lemma citation_of_first_page:
  "citation_of first_page =
     Inr \<lparr>source = ''prospectus.pdf'',
          Citation.page_content = ''Department of Computer Science...''\<rparr>"
  by (simp add: citation_of_def first_page_def Let_def)

lemma citation_of_second_page:
  "citation_of second_page =
     Inr \<lparr>source = ''prospectus.pdf (Page 1)'', Citation.page_content = ''Admissions...''\<rparr>"
  by (simp add: citation_of_def second_page_def Let_def str_int_1)

section \<open>Guardrail stage\<close>

text \<open>
  C1. Whatever the language model replies, \<open>guardrail\<close> calls it exactly once, with the
  system prompt and the question as the only messages, and returns a state whose answer
  is the refusal sentence exactly when \<^verbatim>\<open>NO\<close> occurs somewhere in the trimmed, uppercased
  reply; in that case \<open>retrieved_docs\<close> keeps its default. Otherwise the answer is empty.
  The question is passed through in both cases.
\<close>

theorem guardrail_decision_rule:
  assumes "llm self (guardrail_messages state) = Inr r"
  shows "\<exists>state'.
           guardrail self state tr =
             (Inr state', tr @ [LLMInvoke [SystemMessage system_prompt, HumanMessage (question state)]]) \<and>
           (answer state' = refusal \<longleftrightarrow> py_in ''NO'' (py_upper (py_strip r))) \<and>
           (py_in ''NO'' (py_upper (py_strip r)) \<longleftrightarrow> (\<exists>p q. py_upper (py_strip r) = p @ ''NO'' @ q)) \<and>
           (py_in ''NO'' (py_upper (py_strip r)) \<longrightarrow> retrieved_docs state' = default_retrieved_docs) \<and>
           (\<not> py_in ''NO'' (py_upper (py_strip r)) \<longrightarrow> answer state' = []) \<and>
           question state' = question state"
proof -
  have "refusal \<noteq> []" by (simp add: refusal_def)
  then show ?thesis
    using guardrail_returns [OF assms, of tr] py_in_iff [of "''NO''" "py_upper (py_strip r)"]
    by (simp add: guardrail_messages_def default_retrieved_docs_def)
qed

theorem guardrail_decision_rule_witness:
  "llm refusing_nodes (guardrail_messages hi_state) = Inr '' no. '' \<and>
   py_upper (py_strip '' no. '') = ''NO.'' \<and>
   fst (guardrail refusing_nodes hi_state []) =
     Inr \<lparr>question = ''Hi'', retrieved_docs = [], answer = refusal\<rparr> \<and>
   snd (guardrail refusing_nodes hi_state []) =
     [LLMInvoke [SystemMessage system_prompt, HumanMessage ''Hi'']]"
proof -
  have l: "llm refusing_nodes (guardrail_messages hi_state) = Inr '' no. ''"
    by (simp add: refusing_nodes_def)
  have n: "py_upper (py_strip '' no. '') = ''NO.''"
    by code_simp
  have "py_in ''NO'' (py_upper (py_strip '' no. ''))"
    by (simp add: n)
  with guardrail_decision_rule [OF l, of "[]"] l n show ?thesis
    by (auto simp: hi_state_def default_retrieved_docs_def)
qed

section \<open>Transitions of the graph\<close>

text \<open>
  C2. The graph starts at the guardrail. From there it goes to the terminal node exactly
  when the answer contains the refusal text, and to the retriever otherwise; for a state
  the guardrail produced this is exactly when the answer is the refusal sentence. The
  retriever is always followed by the responder and the responder by the terminal node.
\<close>

theorem orchestrator_transitions:
  "entry_point = Guardrail \<and>
   next_node Guardrail state =
     Some (if py_in ''I only answer department information'' (answer state)
           then END else Retriever) \<and>
   (guardrail self state0 tr = (Inr state, tr') \<longrightarrow>
      (next_node Guardrail state = Some END \<longleftrightarrow> answer state = refusal)) \<and>
   next_node Retriever state1 = Some Responder \<and>
   next_node Responder state2 = Some END \<and>
   next_node END state3 = None"
proof -
  have "\<not> py_in ''I only answer department information'' []" by simp
  then have "guardrail self state0 tr = (Inr state, tr') \<longrightarrow>
      (next_node Guardrail state = Some END \<longleftrightarrow> answer state = refusal)"
    using marker_in_refusal guardrail_answer [of self state0 tr state tr']
    by (auto simp: next_node_Guardrail)
  then show ?thesis
    by (simp add: entry_point_def next_node_Guardrail next_node_Retriever
        next_node_Responder next_node_END)
qed

theorem orchestrator_transitions_witness:
  "guardrail refusing_nodes hi_state [] =
     (Inr \<lparr>question = ''Hi'', retrieved_docs = [], answer = refusal\<rparr>,
      [LLMInvoke (guardrail_messages hi_state)]) \<and>
   next_node Guardrail \<lparr>question = ''Hi'', retrieved_docs = [], answer = refusal\<rparr> = Some END \<and>
   next_node Guardrail \<lparr>question = ''Hi'', retrieved_docs = [], answer = []\<rparr> = Some Retriever"
proof -
  have l: "llm refusing_nodes (guardrail_messages hi_state) = Inr '' no. ''"
    by (simp add: refusing_nodes_def)
  have n: "py_upper (py_strip '' no. '') = ''NO.''"
    by code_simp
  have g: "guardrail refusing_nodes hi_state [] =
     (Inr \<lparr>question = ''Hi'', retrieved_docs = [], answer = refusal\<rparr>,
      [LLMInvoke (guardrail_messages hi_state)])"
    using guardrail_returns [OF l, of "[]"] by (simp add: n hi_state_def)
  from orchestrator_transitions
    [of "\<lparr>question = ''Hi'', retrieved_docs = [], answer = refusal\<rparr>" refusing_nodes hi_state "[]"
       "[LLMInvoke (guardrail_messages hi_state)]"]
  have "guardrail refusing_nodes hi_state [] =
          (Inr \<lparr>question = ''Hi'', retrieved_docs = [], answer = refusal\<rparr>,
           [LLMInvoke (guardrail_messages hi_state)]) \<longrightarrow>
        (next_node Guardrail \<lparr>question = ''Hi'', retrieved_docs = [], answer = refusal\<rparr> = Some END
           \<longleftrightarrow> answer \<lparr>question = ''Hi'', retrieved_docs = [], answer = refusal\<rparr> = refusal)"
    by blast
  with g
  have "next_node Guardrail \<lparr>question = ''Hi'', retrieved_docs = [], answer = refusal\<rparr> = Some END"
    by simp
  moreover from orchestrator_transitions [of "\<lparr>question = ''Hi'', retrieved_docs = [], answer = []\<rparr>"]
  have "next_node Guardrail \<lparr>question = ''Hi'', retrieved_docs = [], answer = []\<rparr> = Some Retriever"
    by simp
  ultimately show ?thesis using g by simp
qed

section \<open>Retrieval stage\<close>

text \<open>
  C3. For a state that the guardrail produced and the graph sends on to the retriever,
  \<open>retrieve_docs\<close> queries the store once with the question and returns a state whose
  \<open>retrieved_docs\<close> is the store's result as it is, with the question and the answer of
  the input state.
\<close>

theorem retrieve_docs_contract:
  assumes "guardrail self state0 tr0 = (Inr state, tr1)"
    and "next_node Guardrail state = Some Retriever"
    and "retriever self (question state) = Inr docs"
  shows "\<exists>state'.
           retrieve_docs self state tr = (Inr state', tr @ [RetrieverInvoke (question state)]) \<and>
           retrieved_docs state' = docs \<and>
           question state' = question state \<and>
           answer state' = answer state"
proof -
  from assms(2) have "\<not> py_in ''I only answer department information'' (answer state)"
    by (simp add: next_node_Guardrail split: if_splits)
  with guardrail_answer [OF assms(1)] marker_in_refusal have "answer state = []"
    by auto
  with assms(3) show ?thesis
    by (simp add: retrieve_docs_def Let_def default_answer_def)
qed

theorem retrieve_docs_contract_witness:
  "guardrail accepting_nodes hi_state [] =
     (Inr hi_state, [LLMInvoke (guardrail_messages hi_state)]) \<and>
   next_node Guardrail hi_state = Some Retriever \<and>
   retriever accepting_nodes (question hi_state) = Inr [first_page, second_page] \<and>
   retrieve_docs accepting_nodes hi_state [] =
     (Inr \<lparr>question = ''Hi'', retrieved_docs = [first_page, second_page], answer = []\<rparr>,
      [RetrieverInvoke ''Hi''])"
proof -
  have l: "llm accepting_nodes (guardrail_messages hi_state) = Inr ''YES''"
    by (simp add: accepting_nodes_def)
  have n: "py_upper (py_strip ''YES'') = ''YES''"
    by code_simp
  have g: "guardrail accepting_nodes hi_state [] =
     (Inr hi_state, [LLMInvoke (guardrail_messages hi_state)])"
    using guardrail_returns [OF l, of "[]"] by (simp add: n hi_state_def)
  have nx: "next_node Guardrail hi_state = Some Retriever"
    by (simp add: next_node_Guardrail hi_state_def)
  have r: "retriever accepting_nodes (question hi_state) = Inr [first_page, second_page]"
    by (simp add: accepting_nodes_def)
  from retrieve_docs_contract [OF g nx r, of "[]"] obtain state' where
    "retrieve_docs accepting_nodes hi_state [] = (Inr state', [RetrieverInvoke (question hi_state)])"
    "retrieved_docs state' = [first_page, second_page]"
    "question state' = question hi_state" "answer state' = answer hi_state"
    by auto
  then have "retrieve_docs accepting_nodes hi_state [] =
     (Inr \<lparr>question = ''Hi'', retrieved_docs = [first_page, second_page], answer = []\<rparr>,
      [RetrieverInvoke ''Hi''])"
    by (cases state') (simp add: hi_state_def)
  with g nx r show ?thesis by simp
qed

section \<open>Answer stage\<close>

text \<open>
  C6. When the agent returns, \<open>generate_answer\<close> returns a state whose answer is the
  content of the last message of the agent's result if that content is a non-empty text.
  If the result has no messages, or the last message has no content or an empty one, the
  answer is the sentence \<^verbatim>\<open>Could not generate answer.\<close> No other answer arises: it is
  that sentence or the content of the last message.
\<close>

theorem generate_answer_extraction:
  assumes "agent self [HumanMessage (question state)] = Inr result"
  shows "\<exists>state'.
           generate_answer self state tr =
             (Inr state', tr @ [AgentInvoke [HumanMessage (question state)]]) \<and>
           (\<forall>ms c. result ''messages'' = Some ms \<and> ms \<noteq> [] \<and> c \<noteq> [] \<and>
                   (last ms = AIMessage c \<or> last ms = HumanMessage c \<or>
                    last ms = SystemMessage c) \<longrightarrow>
              answer state' = c) \<and>
           (result ''messages'' = None \<or> result ''messages'' = Some [] \<longrightarrow>
              answer state' = could_not_generate) \<and>
           (\<forall>ms. result ''messages'' = Some ms \<and> ms \<noteq> [] \<and>
                 (last ms = NoContent \<or> last ms = AIMessage [] \<or>
                  last ms = HumanMessage [] \<or> last ms = SystemMessage []) \<longrightarrow>
              answer state' = could_not_generate) \<and>
           (answer state' = could_not_generate \<or>
            (\<exists>ms. result ''messages'' = Some ms \<and> ms \<noteq> [] \<and>
                  (last ms = AIMessage (answer state') \<or> last ms = HumanMessage (answer state') \<or>
                   last ms = SystemMessage (answer state'))))"
proof -
  let ?c = "case result ''messages'' of
              None \<Rightarrow> None
            | Some ms \<Rightarrow> if ms \<noteq> [] then getattr_content (last ms) else None"
  let ?s = "\<lparr>question = question state, retrieved_docs = retrieved_docs state,
             answer = py_or ?c could_not_generate\<rparr>"
  have g: "generate_answer self state tr =
             (Inr ?s, tr @ [AgentInvoke [HumanMessage (question state)]])"
    by (rule generate_answer_returns [OF assms])
  have 1: "answer ?s = c"
    if "result ''messages'' = Some ms" "ms \<noteq> []" "c \<noteq> []"
      "last ms = AIMessage c \<or> last ms = HumanMessage c \<or> last ms = SystemMessage c"
    for ms c
    using that by (auto simp: py_or_def)
  have 2: "answer ?s = could_not_generate"
    if "result ''messages'' = None \<or> result ''messages'' = Some []"
    using that by (auto simp: py_or_def)
  have 3: "answer ?s = could_not_generate"
    if "result ''messages'' = Some ms" "ms \<noteq> []"
      "last ms = NoContent \<or> last ms = AIMessage [] \<or>
       last ms = HumanMessage [] \<or> last ms = SystemMessage []"
    for ms
    using that by (auto simp: py_or_def)
  have 4: "answer ?s = could_not_generate \<or>
            (\<exists>ms. result ''messages'' = Some ms \<and> ms \<noteq> [] \<and>
                  (last ms = AIMessage (answer ?s) \<or> last ms = HumanMessage (answer ?s) \<or>
                   last ms = SystemMessage (answer ?s)))"
  proof (cases "result ''messages''")
    case None
    then show ?thesis by (simp add: py_or_def)
  next
    case (Some ms)
    show ?thesis
    proof (cases "ms = []")
      case True
      with Some show ?thesis by (simp add: py_or_def)
    next
      case False
      with Some show ?thesis
        by (cases "last ms") (auto simp: py_or_def)
    qed
  qed
  from g 1 2 3 4 show ?thesis by blast
qed

theorem generate_answer_extraction_witness:
  "agent accepting_nodes [HumanMessage (question hi_state)] =
     Inr [''messages'' \<mapsto> [HumanMessage ''Hi'', AIMessage ''Dr. Khan is the chairman.'']] \<and>
   generate_answer accepting_nodes hi_state [] =
     (Inr \<lparr>question = ''Hi'', retrieved_docs = [], answer = ''Dr. Khan is the chairman.''\<rparr>,
      [AgentInvoke [HumanMessage ''Hi'']]) \<and>
   agent silent_nodes [HumanMessage (question hi_state)] = Inr Map.empty \<and>
   generate_answer silent_nodes hi_state [] =
     (Inr \<lparr>question = ''Hi'', retrieved_docs = [], answer = ''Could not generate answer.''\<rparr>,
      [AgentInvoke [HumanMessage ''Hi'']])"
proof -
  let ?ms = "[HumanMessage ''Hi'', AIMessage ''Dr. Khan is the chairman.'']"
  have q: "question hi_state = ''Hi''" "retrieved_docs hi_state = []"
    by (simp_all add: hi_state_def)
  have a: "agent accepting_nodes [HumanMessage (question hi_state)] = Inr [''messages'' \<mapsto> ?ms]"
    by (simp add: accepting_nodes_def hi_state_def)
  from generate_answer_extraction [OF a, of "[]"] obtain s1 where
    g1: "generate_answer accepting_nodes hi_state [] =
           (Inr s1, [] @ [AgentInvoke [HumanMessage (question hi_state)]])"
    and e1: "\<forall>ms c. [''messages'' \<mapsto> ?ms] ''messages'' = Some ms \<and> ms \<noteq> [] \<and> c \<noteq> [] \<and>
                   (last ms = AIMessage c \<or> last ms = HumanMessage c \<or>
                    last ms = SystemMessage c) \<longrightarrow> answer s1 = c"
    by blast
  from e1 have f1: "answer s1 = ''Dr. Khan is the chairman.''"
    by simp
  from generate_answer_frame_aux [OF g1] have k1: "question s1 = ''Hi''" "retrieved_docs s1 = []"
    by (simp_all add: q)
  have r1: "generate_answer accepting_nodes hi_state [] =
     (Inr \<lparr>question = ''Hi'', retrieved_docs = [], answer = ''Dr. Khan is the chairman.''\<rparr>,
      [AgentInvoke [HumanMessage ''Hi'']])"
    using g1 f1 k1 by (cases s1) (simp add: q)
  have b: "agent silent_nodes [HumanMessage (question hi_state)] = Inr Map.empty"
    by (simp add: silent_nodes_def)
  from generate_answer_extraction [OF b, of "[]"] obtain s2 where
    g2: "generate_answer silent_nodes hi_state [] =
           (Inr s2, [] @ [AgentInvoke [HumanMessage (question hi_state)]])"
    and f2: "answer s2 = could_not_generate"
    by auto
  from generate_answer_frame_aux [OF g2] have k2: "question s2 = ''Hi''" "retrieved_docs s2 = []"
    by (simp_all add: q)
  have r2: "generate_answer silent_nodes hi_state [] =
     (Inr \<lparr>question = ''Hi'', retrieved_docs = [], answer = ''Could not generate answer.''\<rparr>,
      [AgentInvoke [HumanMessage ''Hi'']])"
    using g2 f2 k2 by (cases s2) (simp add: q could_not_generate_def)
  from a r1 b r2 show ?thesis by simp
qed

text \<open>
  C7. Every state that \<open>generate_answer\<close> returns has the \<open>retrieved_docs\<close> and the
  question of its input state, and it returns one whenever the agent returns, whatever
  the agent's result is.
\<close>

theorem generate_answer_frame:
  "(\<forall>state' tr'. generate_answer self state tr = (Inr state', tr') \<longrightarrow>
       retrieved_docs state' = retrieved_docs state \<and> question state' = question state) \<and>
   (\<forall>result. agent self [HumanMessage (question state)] = Inr result \<longrightarrow>
       (\<exists>state'. generate_answer self state tr =
                   (Inr state', tr @ [AgentInvoke [HumanMessage (question state)]])))"
proof (cases "agent self [HumanMessage (question state)]")
  case (Inl e)
  then show ?thesis by (simp add: generate_answer_raises)
next
  case (Inr result)
  then show ?thesis by (simp add: generate_answer_returns)
qed

theorem generate_answer_frame_witness:
  "generate_answer accepting_nodes
     \<lparr>question = ''Hi'', retrieved_docs = [first_page], answer = []\<rparr> [] =
     (Inr \<lparr>question = ''Hi'', retrieved_docs = [first_page],
           answer = ''Dr. Khan is the chairman.''\<rparr>,
      [AgentInvoke [HumanMessage ''Hi'']]) \<and>
   retrieved_docs \<lparr>question = ''Hi'', retrieved_docs = [first_page],
                   answer = ''Dr. Khan is the chairman.''\<rparr> = [first_page]"
proof -
  let ?s = "\<lparr>question = ''Hi'', retrieved_docs = [first_page], answer = []\<rparr>"
  let ?s' = "\<lparr>question = ''Hi'', retrieved_docs = [first_page],
              answer = ''Dr. Khan is the chairman.''\<rparr>"
  have g: "generate_answer accepting_nodes ?s [] = (Inr ?s', [AgentInvoke [HumanMessage ''Hi'']])"
    by (simp add: generate_answer_def accepting_nodes_def Let_def py_or_def
        could_not_generate_def)
  from generate_answer_frame [of accepting_nodes ?s "[]"] g
  have "retrieved_docs ?s' = retrieved_docs ?s" by blast
  with g show ?thesis by simp
qed

section \<open>Complete runs\<close>

text \<open>
  C4, as stated, fails: when the guardrail accepts, the store returns a passage and the
  agent's last message is the refusal sentence, \<open>run\<close> returns the refusal sentence
  together with that passage.
\<close>

theorem refusal_with_docs_counterexample:
  "fst (run echoing_nodes ''Who is the HOD?'' []) =
     Inr \<lparr>question_entry = Some ''Who is the HOD?'',
          retrieved_docs_entry = Some [first_page],
          answer_entry = Some refusal\<rparr>"
  by (simp add: run_cases echoing_nodes_def yes_normalised generate_answer_def Let_def
      py_or_def as_result_def refusal_def)

text \<open>
  C4, amended. If \<open>run\<close> returns the refusal sentence as answer and \<open>retrieved_docs\<close> is
  not empty, then the guardrail's normalised reply did not contain \<^verbatim>\<open>NO\<close>, the passages
  are the store's result, and the refusal sentence is the content of the last message of
  the agent. And whenever the guardrail refuses (the normalised reply contains \<^verbatim>\<open>NO\<close>),
  \<open>run\<close> returns the refusal sentence with empty \<open>retrieved_docs\<close>.
\<close>

theorem refusal_with_docs_origin:
  "(\<forall>res tr'. run self q tr = (Inr res, tr') \<and> answer_entry res = Some refusal \<and>
        retrieved_docs_entry res \<noteq> Some [] \<longrightarrow>
      (\<exists>r docs result ms.
           llm self [SystemMessage system_prompt, HumanMessage q] = Inr r \<and>
           \<not> py_in ''NO'' (py_upper (py_strip r)) \<and>
           retriever self q = Inr docs \<and>
           retrieved_docs_entry res = Some docs \<and>
           agent self [HumanMessage q] = Inr result \<and>
           result ''messages'' = Some ms \<and> ms \<noteq> [] \<and>
           (last ms = AIMessage refusal \<or> last ms = HumanMessage refusal \<or>
            last ms = SystemMessage refusal))) \<and>
   (\<forall>r. llm self [SystemMessage system_prompt, HumanMessage q] = Inr r \<and>
        py_in ''NO'' (py_upper (py_strip r)) \<longrightarrow>
      (\<exists>res tr'. run self q tr = (Inr res, tr') \<and>
                  answer_entry res = Some refusal \<and> retrieved_docs_entry res = Some []))"
proof -
  have first: "\<exists>r docs result ms.
           llm self [SystemMessage system_prompt, HumanMessage q] = Inr r \<and>
           \<not> py_in ''NO'' (py_upper (py_strip r)) \<and>
           retriever self q = Inr docs \<and>
           retrieved_docs_entry res = Some docs \<and>
           agent self [HumanMessage q] = Inr result \<and>
           result ''messages'' = Some ms \<and> ms \<noteq> [] \<and>
           (last ms = AIMessage refusal \<or> last ms = HumanMessage refusal \<or>
            last ms = SystemMessage refusal)"
    if run: "run self q tr = (Inr res, tr')" and ans: "answer_entry res = Some refusal"
      and docs: "retrieved_docs_entry res \<noteq> Some []"
    for res tr'
  proof (cases "llm self [SystemMessage system_prompt, HumanMessage q]")
    case (Inl e)
    with run show ?thesis by (simp add: run_cases)
  next
    case r: (Inr r)
    show ?thesis
    proof (cases "py_in ''NO'' (py_upper (py_strip r))")
      case True
      with r run docs show ?thesis by (auto simp: run_cases)
    next
      case no: False
      show ?thesis
      proof (cases "retriever self q")
        case (Inl e)
        with r no run show ?thesis by (simp add: run_cases)
      next
        case d: (Inr docs)
        show ?thesis
        proof (cases "agent self [HumanMessage q]")
          case (Inl e)
          with r no d run show ?thesis
            by (simp add: run_cases generate_answer_raises)
        next
          case a: (Inr result)
          let ?c = "case result ''messages'' of
                      None \<Rightarrow> None
                    | Some ms \<Rightarrow> if ms \<noteq> [] then getattr_content (last ms) else None"
          from r no d a run
          have res: "res = \<lparr>question_entry = Some q, retrieved_docs_entry = Some docs,
                            answer_entry = Some (py_or ?c could_not_generate)\<rparr>"
            by (simp add: run_cases generate_answer_returns as_result_def)
          with ans have "?c = Some refusal"
            by (simp add: py_or_refusal)
          then obtain ms where ms: "result ''messages'' = Some ms" "ms \<noteq> []"
            "getattr_content (last ms) = Some refusal"
            by (auto split: option.splits if_splits)
          from ms(3) have "last ms = AIMessage refusal \<or> last ms = HumanMessage refusal \<or>
            last ms = SystemMessage refusal"
            by (cases "last ms") auto
          with ms r no d a res show ?thesis by simp
        qed
      qed
    qed
  qed
  have second: "\<exists>res tr'. run self q tr = (Inr res, tr') \<and>
                  answer_entry res = Some refusal \<and> retrieved_docs_entry res = Some []"
    if "llm self [SystemMessage system_prompt, HumanMessage q] = Inr r"
      and "py_in ''NO'' (py_upper (py_strip r))"
    for r
    using that by (simp add: run_cases)
  from first second show ?thesis by blast
qed

theorem refusal_with_docs_origin_witness:
  "run echoing_nodes ''Who is the HOD?'' [] =
     (Inr \<lparr>question_entry = Some ''Who is the HOD?'',
           retrieved_docs_entry = Some [first_page],
           answer_entry = Some refusal\<rparr>,
      [Stage Guardrail,
       LLMInvoke [SystemMessage system_prompt, HumanMessage ''Who is the HOD?''],
       Stage Retriever, RetrieverInvoke ''Who is the HOD?'',
       Stage Responder, AgentInvoke [HumanMessage ''Who is the HOD?'']]) \<and>
   (\<exists>r. llm echoing_nodes [SystemMessage system_prompt, HumanMessage ''Who is the HOD?''] = Inr r \<and>
        \<not> py_in ''NO'' (py_upper (py_strip r))) \<and>
   (\<exists>result ms. agent echoing_nodes [HumanMessage ''Who is the HOD?''] = Inr result \<and>
        result ''messages'' = Some ms \<and>
        (last ms = AIMessage refusal \<or> last ms = HumanMessage refusal \<or>
         last ms = SystemMessage refusal)) \<and>
   llm refusing_nodes [SystemMessage system_prompt, HumanMessage ''Hi''] = Inr '' no. '' \<and>
   py_in ''NO'' (py_upper (py_strip '' no. '')) \<and>
   (\<exists>res tr'. run refusing_nodes ''Hi'' [] = (Inr res, tr') \<and>
        answer_entry res = Some refusal \<and> retrieved_docs_entry res = Some [])"
proof -
  let ?res = "\<lparr>question_entry = Some ''Who is the HOD?'',
                retrieved_docs_entry = Some [first_page],
                answer_entry = Some refusal\<rparr>"
  have run: "run echoing_nodes ''Who is the HOD?'' [] =
     (Inr ?res,
      [Stage Guardrail,
       LLMInvoke [SystemMessage system_prompt, HumanMessage ''Who is the HOD?''],
       Stage Retriever, RetrieverInvoke ''Who is the HOD?'',
       Stage Responder, AgentInvoke [HumanMessage ''Who is the HOD?'']])"
    by (simp add: run_cases echoing_nodes_def yes_normalised generate_answer_def Let_def
        py_or_def as_result_def refusal_def)
  have a: "answer_entry ?res = Some refusal" by simp
  have d: "retrieved_docs_entry ?res \<noteq> Some []" by simp
  have l: "llm refusing_nodes [SystemMessage system_prompt, HumanMessage ''Hi''] = Inr '' no. ''"
    by (simp add: refusing_nodes_def)
  have n: "py_in ''NO'' (py_upper (py_strip '' no. ''))"
    by (simp add: no_normalised)
  from refusal_with_docs_origin [of echoing_nodes "''Who is the HOD?''" "[]"] run a d
  have one: "\<exists>r docs result ms.
           llm echoing_nodes [SystemMessage system_prompt, HumanMessage ''Who is the HOD?''] = Inr r \<and>
           \<not> py_in ''NO'' (py_upper (py_strip r)) \<and>
           retriever echoing_nodes ''Who is the HOD?'' = Inr docs \<and>
           retrieved_docs_entry ?res = Some docs \<and>
           agent echoing_nodes [HumanMessage ''Who is the HOD?''] = Inr result \<and>
           result ''messages'' = Some ms \<and> ms \<noteq> [] \<and>
           (last ms = AIMessage refusal \<or> last ms = HumanMessage refusal \<or>
            last ms = SystemMessage refusal)"
    by blast
  from refusal_with_docs_origin [of refusing_nodes "''Hi''" "[]"] l n
  have two: "\<exists>res tr'. run refusing_nodes ''Hi'' [] = (Inr res, tr') \<and>
        answer_entry res = Some refusal \<and> retrieved_docs_entry res = Some []"
    by blast
  from one have "\<exists>r. llm echoing_nodes [SystemMessage system_prompt, HumanMessage ''Who is the HOD?''] = Inr r \<and>
        \<not> py_in ''NO'' (py_upper (py_strip r))"
    by blast
  moreover from one have "\<exists>result ms. agent echoing_nodes [HumanMessage ''Who is the HOD?''] = Inr result \<and>
        result ''messages'' = Some ms \<and>
        (last ms = AIMessage refusal \<or> last ms = HumanMessage refusal \<or>
         last ms = SystemMessage refusal)"
    by blast
  ultimately show ?thesis using run two l n by blast
qed

text \<open>
  C5. If the model's normalised reply contains \<^verbatim>\<open>NO\<close>, the guardrail sets the answer to
  the refusal sentence, and \<open>run\<close> executes the guardrail only: it returns the refusal
  sentence with empty \<open>retrieved_docs\<close>, and neither the store nor the agent is called.
\<close>

theorem refusal_short_circuit:
  assumes "llm self [SystemMessage system_prompt, HumanMessage q] = Inr r"
    and "py_in ''NO'' (py_upper (py_strip r))"
  shows "guardrail self
           \<lparr>question = q, retrieved_docs = default_retrieved_docs, answer = default_answer\<rparr> tr =
           (Inr \<lparr>question = q, retrieved_docs = [], answer = refusal\<rparr>,
            tr @ [LLMInvoke [SystemMessage system_prompt, HumanMessage q]]) \<and>
         run self q tr =
           (Inr \<lparr>question_entry = Some q, retrieved_docs_entry = Some [],
                 answer_entry = Some refusal\<rparr>,
            tr @ [Stage Guardrail, LLMInvoke [SystemMessage system_prompt, HumanMessage q]]) \<and>
         (\<forall>x. RetrieverInvoke x \<notin> set (snd (run self q []))) \<and>
         (\<forall>x. AgentInvoke x \<notin> set (snd (run self q [])))"
proof -
  have g: "guardrail self
           \<lparr>question = q, retrieved_docs = default_retrieved_docs, answer = default_answer\<rparr> tr =
           (Inr \<lparr>question = q, retrieved_docs = [], answer = refusal\<rparr>,
            tr @ [LLMInvoke [SystemMessage system_prompt, HumanMessage q]])"
    using assms guardrail_returns [of self
        "\<lparr>question = q, retrieved_docs = default_retrieved_docs, answer = default_answer\<rparr>" r tr]
    by (simp add: guardrail_messages_def)
  have run: "\<And>t. run self q t =
           (Inr \<lparr>question_entry = Some q, retrieved_docs_entry = Some [],
                 answer_entry = Some refusal\<rparr>,
            t @ [Stage Guardrail, LLMInvoke [SystemMessage system_prompt, HumanMessage q]])"
    using assms by (simp add: run_cases)
  from g run [of tr] run [of "[]"] show ?thesis by simp
qed

theorem refusal_short_circuit_witness:
  "llm refusing_nodes [SystemMessage system_prompt, HumanMessage ''Hi''] = Inr '' no. '' \<and>
   py_in ''NO'' (py_upper (py_strip '' no. '')) \<and>
   run refusing_nodes ''Hi'' [] =
     (Inr \<lparr>question_entry = Some ''Hi'', retrieved_docs_entry = Some [],
           answer_entry = Some refusal\<rparr>,
      [Stage Guardrail, LLMInvoke [SystemMessage system_prompt, HumanMessage ''Hi'']])"
proof -
  have l: "llm refusing_nodes [SystemMessage system_prompt, HumanMessage ''Hi''] = Inr '' no. ''"
    by (simp add: refusing_nodes_def)
  have n: "py_in ''NO'' (py_upper (py_strip '' no. ''))"
    by (simp add: no_normalised)
  from refusal_short_circuit [OF l n, of "[]"] l n show ?thesis by simp
qed

text \<open>
  C8. The edges of the graph form no cycle and every transition follows one of them. A
  run executes the guardrail, then possibly the retriever, then possibly the responder,
  and nothing else: at most three stage functions.
\<close>

theorem run_stage_bound:
  "acyclic (set graph_edges) \<and>
   (\<forall>n state n'. next_node n state = Some n' \<longrightarrow> (n, n') \<in> set graph_edges) \<and>
   (stages_of (snd (run self q [])) = [Guardrail] \<or>
    stages_of (snd (run self q [])) = [Guardrail, Retriever] \<or>
    stages_of (snd (run self q [])) = [Guardrail, Retriever, Responder]) \<and>
   length (stages_of (snd (run self q tr))) \<le> length (stages_of tr) + 3"
proof -
  have "length (stages_of (snd (run self q tr))) \<le> length (stages_of tr) + 3"
    using run_stages [of self q tr] by auto
  moreover have "stages_of (snd (run self q [])) = [Guardrail] \<or>
    stages_of (snd (run self q [])) = [Guardrail, Retriever] \<or>
    stages_of (snd (run self q [])) = [Guardrail, Retriever, Responder]"
    using run_stages [of self q "[]"] by simp
  ultimately show ?thesis
    using acyclic_graph_edges next_node_in_graph_edges by blast
qed

theorem run_stage_bound_witness:
  "next_node Retriever hi_state = Some Responder \<and>
   (Retriever, Responder) \<in> set graph_edges \<and>
   stages_of (snd (run accepting_nodes ''Hi'' [])) = [Guardrail, Retriever, Responder] \<and>
   length (stages_of (snd (run accepting_nodes ''Hi'' []))) \<le> 3"
proof -
  have n: "next_node Retriever hi_state = Some Responder"
    by (simp add: next_node_Retriever)
  have s: "stages_of (snd (run accepting_nodes ''Hi'' [])) = [Guardrail, Retriever, Responder]"
    by (simp add: run_cases accepting_nodes_def yes_normalised generate_answer_def Let_def)
  from run_stage_bound [of accepting_nodes "''Hi''" "[]"] n
  have "(Retriever, Responder) \<in> set graph_edges"
    and "length (stages_of (snd (run accepting_nodes ''Hi'' []))) \<le> length (stages_of []) + 3"
    by blast+
  with n s show ?thesis by simp
qed

section \<open>The chat endpoint\<close>

text \<open>
  C9. The endpoint at a passage whose metadata has the page number 0 (the first page of
  a document): the citation's source is the bare source name, without a page, while the
  passage of page 1 gets \<^verbatim>\<open>(Page 1)\<close>. Each citation's text is the passage's first 200
  characters followed by three dots.
\<close>

theorem first_page_citation_has_no_page:
  "metadata first_page ''source'' = Some (PyStr ''prospectus.pdf'') \<and>
   metadata first_page ''page'' = Some (PyInt 0) \<and>
   fst (chat_endpoint (Some (run accepting_nodes)) \<lparr>message = ''Who is the HOD?''\<rparr> []) =
     Inr \<lparr>ChatResponse.answer = ''Dr. Khan is the chairman.'',
          citations =
            [\<lparr>source = ''prospectus.pdf'',
              Citation.page_content = ''Department of Computer Science...''\<rparr>,
             \<lparr>source = ''prospectus.pdf (Page 1)'',
              Citation.page_content = ''Admissions...''\<rparr>]\<rparr>"
proof -
  have "fst (run accepting_nodes ''Who is the HOD?'' []) =
          Inr \<lparr>question_entry = Some ''Who is the HOD?'',
               retrieved_docs_entry = Some [first_page, second_page],
               answer_entry = Some ''Dr. Khan is the chairman.''\<rparr>"
    by (simp add: run_cases accepting_nodes_def yes_normalised generate_answer_def Let_def
        py_or_def as_result_def)
  then have "fst (chat_endpoint (Some (run accepting_nodes)) \<lparr>message = ''Who is the HOD?''\<rparr> []) =
     Inr \<lparr>ChatResponse.answer = ''Dr. Khan is the chairman.'',
          citations =
            [\<lparr>source = ''prospectus.pdf'',
              Citation.page_content = ''Department of Computer Science...''\<rparr>,
             \<lparr>source = ''prospectus.pdf (Page 1)'',
              Citation.page_content = ''Admissions...''\<rparr>]\<rparr>"
    by (cases "run accepting_nodes ''Who is the HOD?'' []")
      (simp add: chat_endpoint_def Let_def citation_of_first_page citation_of_second_page)
  then show ?thesis by (simp add: first_page_def)
qed

text \<open>
  C10. When the workflow's result has no \<open>retrieved_docs\<close> entry, or an empty one, the
  endpoint returns an empty list of citations; when it has no \<open>answer\<close> entry, every
  response the endpoint returns has the empty answer, and it returns one whenever the
  citations can be built. On the refusal path of \<open>run\<close> the citations are empty.
\<close>

theorem chat_endpoint_defaults:
  "(\<forall>res tr'. run_method (message request) tr = (Inr res, tr') \<longrightarrow>
      (retrieved_docs_entry res = None \<or> retrieved_docs_entry res = Some [] \<longrightarrow>
         chat_endpoint (Some run_method) request tr =
           (Inr \<lparr>ChatResponse.answer = (case answer_entry res of None \<Rightarrow> [] | Some a \<Rightarrow> a),
                 citations = []\<rparr>, tr')) \<and>
      (answer_entry res = None \<longrightarrow>
         (\<forall>response tr''. chat_endpoint (Some run_method) request tr = (Inr response, tr'') \<longrightarrow>
            ChatResponse.answer response = [])) \<and>
      (\<forall>docs cits. answer_entry res = None \<and> retrieved_docs_entry res = Some docs \<and>
           citations_loop docs [] = Inr cits \<longrightarrow>
         chat_endpoint (Some run_method) request tr =
           (Inr \<lparr>ChatResponse.answer = [], citations = cits\<rparr>, tr'))) \<and>
   (\<forall>self r. llm self [SystemMessage system_prompt, HumanMessage (message request)] = Inr r \<and>
        py_in ''NO'' (py_upper (py_strip r)) \<longrightarrow>
      chat_endpoint (Some (run self)) request tr =
        (Inr \<lparr>ChatResponse.answer = refusal, citations = []\<rparr>,
         tr @ [Stage Guardrail,
               LLMInvoke [SystemMessage system_prompt, HumanMessage (message request)]]))"
proof -
  have a: "chat_endpoint (Some run_method) request tr =
           (Inr \<lparr>ChatResponse.answer = (case answer_entry res of None \<Rightarrow> [] | Some a \<Rightarrow> a),
                 citations = []\<rparr>, tr')"
    if "run_method (message request) tr = (Inr res, tr')"
      and "retrieved_docs_entry res = None \<or> retrieved_docs_entry res = Some []"
    for res tr'
    using that by (auto simp: chat_endpoint_def Let_def)
  have b: "ChatResponse.answer response = []"
    if "run_method (message request) tr = (Inr res, tr')" and "answer_entry res = None"
      and "chat_endpoint (Some run_method) request tr = (Inr response, tr'')"
    for res tr' response tr''
    using that
    by (auto simp: chat_endpoint_def Let_def split: option.splits if_splits sum.splits error.splits)
  have c: "chat_endpoint (Some run_method) request tr =
           (Inr \<lparr>ChatResponse.answer = [], citations = cits\<rparr>, tr')"
    if "run_method (message request) tr = (Inr res, tr')" and "answer_entry res = None"
      and "retrieved_docs_entry res = Some docs" and "citations_loop docs [] = Inr cits"
    for res tr' docs cits
    using that by (cases docs) (auto simp: chat_endpoint_def Let_def)
  have d: "chat_endpoint (Some (run self)) request tr =
        (Inr \<lparr>ChatResponse.answer = refusal, citations = []\<rparr>,
         tr @ [Stage Guardrail,
               LLMInvoke [SystemMessage system_prompt, HumanMessage (message request)]])"
    if "llm self [SystemMessage system_prompt, HumanMessage (message request)] = Inr r"
      and "py_in ''NO'' (py_upper (py_strip r))"
    for self r
    using that by (simp add: chat_endpoint_def Let_def run_cases)
  show ?thesis
    using a b c d by blast
qed

theorem chat_endpoint_defaults_witness:
  "bare_run (message \<lparr>message = ''Hi''\<rparr>) [] =
     (Inr \<lparr>question_entry = Some ''Hi'', retrieved_docs_entry = None, answer_entry = None\<rparr>, []) \<and>
   chat_endpoint (Some bare_run) \<lparr>message = ''Hi''\<rparr> [] =
     (Inr \<lparr>ChatResponse.answer = [], citations = []\<rparr>, []) \<and>
   chat_endpoint (Some (run refusing_nodes)) \<lparr>message = ''Hi''\<rparr> [] =
     (Inr \<lparr>ChatResponse.answer = refusal, citations = []\<rparr>,
      [Stage Guardrail, LLMInvoke [SystemMessage system_prompt, HumanMessage ''Hi'']])"
proof -
  let ?res = "\<lparr>question_entry = Some ''Hi'', retrieved_docs_entry = None, answer_entry = None\<rparr>"
  have r: "bare_run (message \<lparr>message = ''Hi''\<rparr>) [] = (Inr ?res, [])"
    by (simp add: bare_run_def)
  have l: "llm refusing_nodes [SystemMessage system_prompt, HumanMessage (message \<lparr>message = ''Hi''\<rparr>)]
             = Inr '' no. ''"
    by (simp add: refusing_nodes_def)
  have n: "py_in ''NO'' (py_upper (py_strip '' no. ''))"
    by (simp add: no_normalised)
  have e: "retrieved_docs_entry ?res = None \<or> retrieved_docs_entry ?res = Some []"
    by simp
  from chat_endpoint_defaults [of bare_run "\<lparr>message = ''Hi''\<rparr>" "[]"] r e
  have "chat_endpoint (Some bare_run) \<lparr>message = ''Hi''\<rparr> [] =
     (Inr \<lparr>ChatResponse.answer = (case answer_entry ?res of None \<Rightarrow> [] | Some a \<Rightarrow> a),
           citations = []\<rparr>, [])"
    by blast
  moreover from chat_endpoint_defaults [of "run refusing_nodes" "\<lparr>message = ''Hi''\<rparr>" "[]"] l n
  have "chat_endpoint (Some (run refusing_nodes)) \<lparr>message = ''Hi''\<rparr> [] =
     (Inr \<lparr>ChatResponse.answer = refusal, citations = []\<rparr>,
      [] @ [Stage Guardrail,
            LLMInvoke [SystemMessage system_prompt,
                       HumanMessage (message \<lparr>message = ''Hi''\<rparr>)]])"
    by blast
  ultimately show ?thesis using r by simp
qed

end
